theory Spec2Isabelle
  imports Complex_Main
begin

section \<open>Data model of app.py\<close>

text \<open>
  Python values that occur in the result dictionaries. A Python \<open>str\<close> is a \<open>string\<close>
  (code points below 256), a Python \<open>int\<close> is an \<open>int\<close>. A Python \<open>float\<close> is
  idealised as a rational number: the readings of \<open>time.time()\<close>, their difference and
  \<open>round(_, 2)\<close> are computed exactly, without the rounding error of binary
  floating point.
\<close>

datatype pyval = PyStr string | PyInt int | PyFloat rat

type_synonym pydict = "string \<rightharpoonup> pyval"

text \<open>
  An exception object caught by \<open>except Exception as e\<close>: an instance of \<open>Exception\<close>.
  The program reads nothing of it but \<open>str(e)\<close>, which is what the value carries.
  System-exiting exceptions (\<open>KeyboardInterrupt\<close>, \<open>SystemExit\<close>), which are not
  instances of \<open>Exception\<close>, end the process and are not outcomes of a call here.
\<close>

datatype py_exception = PyException (py_str: string)

text \<open>
  The outside world of one process: the system clock, read by \<open>time.time()\<close>, and the
  state \<open>'v\<close> of whatever the vendor SDK clients talk to. \<open>clock w n\<close> is the value of
  the \<open>n\<close>-th reading of the clock, \<open>ticks w\<close> the number of readings taken so far.
\<close>

record 'v world =
  clock :: "nat \<Rightarrow> rat"
  ticks :: nat
  vendor :: 'v

definition time_time :: "'v world \<Rightarrow> rat \<times> 'v world" where
  "time_time w = (clock w (ticks w), w\<lparr>ticks := Suc (ticks w)\<rparr>)"

text \<open>
  The vendor SDKs are not part of the repository. Of a response the adapters read two
  attributes; a call of a client either raises or returns a response, and may change
  the vendor's state. The first argument of a client is the keyword argument \<open>model\<close>,
  the second is \<open>input\<close> (OpenAI) or \<open>contents\<close> (Gemini).
\<close>

record openai_usage =
  total_tokens :: int

record openai_response =
  output_text :: string
  usage :: "openai_usage option"

record gemini_usage =
  total_token_count :: int

record gemini_response =
  gemini_text :: string
  usage_metadata :: "gemini_usage option"

type_synonym 'v openai_client =
  "string \<Rightarrow> string \<Rightarrow> 'v \<Rightarrow> (py_exception + openai_response) \<times> 'v"

type_synonym 'v gemini_client =
  "string \<Rightarrow> string \<Rightarrow> 'v \<Rightarrow> (py_exception + gemini_response) \<times> 'v"

type_synonym 'v outcome = "(py_exception + pydict) \<times> 'v world"

text \<open>
  The subclasses of \<open>ModelAdapter\<close>: the two of the file, and any other one
  (\<open>CustomAdapter\<close>: a \<open>name\<close> attribute and a \<open>generate\<close> method), since
  \<open>BenchmarkRunner\<close> accepts whatever list it is given.
\<close>

datatype 'v ModelAdapter =
    OpenAIAdapter "'v openai_client"
  | GeminiAdapter "'v gemini_client"
  | CustomAdapter string "string \<Rightarrow> 'v world \<Rightarrow> 'v outcome"

section \<open>Helpers of the Python runtime\<close>

text \<open>\<open>str.isspace\<close> on the code points below 256.\<close>

definition py_isspace :: "char \<Rightarrow> bool" where
  "py_isspace c = (of_char c \<in> {9, 10, 11, 12, 13, 28, 29, 30, 31, 32, 133, 160 :: nat})"

text \<open>
  \<open>str.split()\<close> without a separator: the maximal runs of characters that are not
  whitespace. \<open>cur\<close> is the word being read.
\<close>

fun split_from :: "string \<Rightarrow> string \<Rightarrow> string list" where
  "split_from cur [] = (if cur = [] then [] else [cur])"
| "split_from cur (c # cs) =
     (if py_isspace c
      then (if cur = [] then split_from [] cs else cur # split_from [] cs)
      else split_from (cur @ [c]) cs)"

definition py_split :: "string \<Rightarrow> string list" where
  "py_split s = split_from [] s"

text \<open>
  \<open>round(x, 2)\<close>: the multiple of 1/100 nearest to \<open>x\<close>, a tie going to the even
  multiple.
\<close>

definition round_half_even :: "rat \<Rightarrow> int" where
  "round_half_even x =
     (let f = \<lfloor>x\<rfloor>; d = x - of_int f
      in if d < 1 / 2 then f
         else if 1 / 2 < d then f + 1
         else if even f then f else f + 1)"

definition py_round2 :: "rat \<Rightarrow> rat" where
  "py_round2 x = of_int (round_half_even (x * 100)) / 100"

section \<open>The adapters\<close>

fun name :: "'v ModelAdapter \<Rightarrow> string" where
  "name (OpenAIAdapter c) = ''OpenAI GPT-4.1-mini''"
| "name (GeminiAdapter c) = ''Google Gemini 1.5 Flash''"
| "name (CustomAdapter n g) = n"

definition OpenAI_generate :: "'v openai_client \<Rightarrow> string \<Rightarrow> 'v world \<Rightarrow> 'v outcome" where
  "OpenAI_generate client prompt w =
     (let (start, w1) = time_time w
      in case client ''gpt-4.1-mini'' prompt (vendor w1) of
           (Inl e, v) \<Rightarrow> (Inl e, w1\<lparr>vendor := v\<rparr>)
         | (Inr response, v) \<Rightarrow>
             (let (now, w2) = time_time (w1\<lparr>vendor := v\<rparr>);
                  latency = now - start
              in (Inr [''provider'' \<mapsto> PyStr (name (OpenAIAdapter client)),
                       ''text'' \<mapsto> PyStr (output_text response),
                       ''latency'' \<mapsto> PyFloat (py_round2 latency),
                       ''tokens'' \<mapsto> PyInt (case usage response of
                                                Some u \<Rightarrow> total_tokens u
                                              | None \<Rightarrow> 0)],
                  w2)))"

definition Gemini_generate :: "'v gemini_client \<Rightarrow> string \<Rightarrow> 'v world \<Rightarrow> 'v outcome" where
  "Gemini_generate client prompt w =
     (let (start, w1) = time_time w
      in case client ''gemini-1.5-flash'' prompt (vendor w1) of
           (Inl e, v) \<Rightarrow> (Inl e, w1\<lparr>vendor := v\<rparr>)
         | (Inr response, v) \<Rightarrow>
             (let (now, w2) = time_time (w1\<lparr>vendor := v\<rparr>);
                  latency = now - start;
                  tokens = (case usage_metadata response of
                              Some u \<Rightarrow> total_token_count u
                            | None \<Rightarrow> int (length (py_split (gemini_text response))))
              in (Inr [''provider'' \<mapsto> PyStr (name (GeminiAdapter client)),
                       ''text'' \<mapsto> PyStr (gemini_text response),
                       ''latency'' \<mapsto> PyFloat (py_round2 latency),
                       ''tokens'' \<mapsto> PyInt tokens],
                  w2)))"

text \<open>The call \<open>adapter.generate(prompt)\<close>, dispatched on the class of the adapter.\<close>

fun generate :: "'v ModelAdapter \<Rightarrow> string \<Rightarrow> 'v world \<Rightarrow> 'v outcome" where
  "generate (OpenAIAdapter c) prompt w = OpenAI_generate c prompt w"
| "generate (GeminiAdapter c) prompt w = Gemini_generate c prompt w"
| "generate (CustomAdapter n g) prompt w = g prompt w"

section \<open>The benchmark runner\<close>

record 'v BenchmarkRunner =
  adapters :: "'v ModelAdapter list"

text \<open>
  The loop of \<open>run\<close> over the remaining adapters; \<open>results\<close> is the list built so far.
\<close>

fun run_loop ::
  "string \<Rightarrow> 'v ModelAdapter list \<Rightarrow> pydict list \<Rightarrow> 'v world \<Rightarrow> pydict list \<times> 'v world" where
  "run_loop prompt [] results w = (results, w)"
| "run_loop prompt (adapter # rest) results w =
     (case generate adapter prompt w of
        (Inr result, w') \<Rightarrow> run_loop prompt rest (results @ [result]) w'
      | (Inl e, w') \<Rightarrow>
          run_loop prompt rest
            (results @ [[''provider'' \<mapsto> PyStr (name adapter),
                         ''error'' \<mapsto> PyStr (py_str e)]]) w')"

definition run :: "'v BenchmarkRunner \<Rightarrow> string \<Rightarrow> 'v world \<Rightarrow> pydict list \<times> 'v world" where
  "run self prompt w = run_loop prompt (adapters self) [] w"

section \<open>The report of main\<close>



section \<open>Notions used to state the properties\<close>

text \<open>
  The dictionary that one pass of the loop appends for an adapter, given what its
  \<open>generate\<close> did: the returned dictionary itself, or the error dictionary of the
  \<open>except\<close> branch.
\<close>

definition result_of :: "'v ModelAdapter \<Rightarrow> py_exception + pydict \<Rightarrow> pydict" where
  "result_of adapter r =
     (case r of
        Inr result \<Rightarrow> result
      | Inl e \<Rightarrow> [''provider'' \<mapsto> PyStr (name adapter), ''error'' \<mapsto> PyStr (py_str e)])"

text \<open>
  The world in which the adapter at position \<open>i\<close> is called: the one left by running
  the adapters before it. \<open>outcome_at\<close> is what the call of that adapter does there
  (\<open>Inl\<close>: it raises, \<open>Inr\<close>: it returns).
\<close>

definition world_before :: "'v BenchmarkRunner \<Rightarrow> string \<Rightarrow> nat \<Rightarrow> 'v world \<Rightarrow> 'v world" where
  "world_before self prompt i w =
     snd (run (self\<lparr>adapters := take i (adapters self)\<rparr>) prompt w)"

definition outcome_at ::
  "'v BenchmarkRunner \<Rightarrow> string \<Rightarrow> nat \<Rightarrow> 'v world \<Rightarrow> py_exception + pydict" where
  "outcome_at self prompt i w =
     fst (generate (adapters self ! i) prompt (world_before self prompt i w))"

text \<open>
  The two shapes of a result. \<open>main\<close> tells them apart by the test \<open>"error" in r\<close>
  and then reads the keys of the shape it found.
\<close>

fun holds_str :: "pyval option \<Rightarrow> bool" where
  "holds_str (Some (PyStr s)) = True"
| "holds_str v = False"

fun holds_int :: "pyval option \<Rightarrow> bool" where
  "holds_int (Some (PyInt k)) = True"
| "holds_int v = False"

fun holds_float :: "pyval option \<Rightarrow> bool" where
  "holds_float (Some (PyFloat x)) = True"
| "holds_float v = False"

definition is_GenerationResult :: "pydict \<Rightarrow> bool" where
  "is_GenerationResult d =
     (holds_str (d ''provider'') \<and> holds_str (d ''text'') \<and> holds_float (d ''latency'') \<and>
      holds_int (d ''tokens'') \<and> d ''error'' = None)"

definition is_ErrorResult :: "pydict \<Rightarrow> bool" where
  "is_ErrorResult d =
     (holds_str (d ''provider'') \<and> holds_str (d ''error'') \<and> d ''text'' = None \<and>
      d ''latency'' = None \<and> d ''tokens'' = None)"

text \<open>The token count and the latency of a result are both present and not negative.\<close>

fun nonneg_int :: "pyval option \<Rightarrow> bool" where
  "nonneg_int (Some (PyInt k)) = (0 \<le> k)"
| "nonneg_int v = False"

fun nonneg_float :: "pyval option \<Rightarrow> bool" where
  "nonneg_float (Some (PyFloat x)) = (0 \<le> x)"
| "nonneg_float v = False"

definition nonneg_metrics :: "pydict \<Rightarrow> bool" where
  "nonneg_metrics d = (nonneg_int (d ''tokens'') \<and> nonneg_float (d ''latency''))"

text \<open>The value under a key of the dictionary a call returned, if it returned one.\<close>

definition field :: "string \<Rightarrow> py_exception + pydict \<Rightarrow> pyval option" where
  "field k r = (case r of Inr d \<Rightarrow> d k | Inl e \<Rightarrow> None)"

fun is_builtin :: "'v ModelAdapter \<Rightarrow> bool" where
  "is_builtin (OpenAIAdapter c) = True"
| "is_builtin (GeminiAdapter c) = True"
| "is_builtin (CustomAdapter n g) = False"

text \<open>
  The total token count that the vendor reports in the call that \<open>generate\<close> makes in
  world \<open>w\<close>, if the call returns a response with usage data.
\<close>

fun reported_total :: "'v ModelAdapter \<Rightarrow> string \<Rightarrow> 'v world \<Rightarrow> int option" where
  "reported_total (OpenAIAdapter c) prompt w =
     (case fst (c ''gpt-4.1-mini'' prompt (vendor w)) of
        Inr response \<Rightarrow> map_option total_tokens (usage response)
      | Inl e \<Rightarrow> None)"
| "reported_total (GeminiAdapter c) prompt w =
     (case fst (c ''gemini-1.5-flash'' prompt (vendor w)) of
        Inr response \<Rightarrow> map_option total_token_count (usage_metadata response)
      | Inl e \<Rightarrow> None)"
| "reported_total (CustomAdapter n g) prompt w = None"


text \<open>
  A test double around an adapter: it behaves as the adapter does and appends the
  position \<open>i\<close> it was given and the prompt it received to a log kept beside the
  vendor state, once per call of its \<open>generate\<close>.
\<close>

definition unlogged :: "((nat \<times> string) list \<times> 'v) world \<Rightarrow> 'v world" where
  "unlogged w = \<lparr>clock = clock w, ticks = ticks w, vendor = snd (vendor w)\<rparr>"

definition logged ::
  "(nat \<times> string) list \<Rightarrow> 'v world \<Rightarrow> ((nat \<times> string) list \<times> 'v) world" where
  "logged l w = \<lparr>clock = clock w, ticks = ticks w, vendor = (l, vendor w)\<rparr>"

definition spy :: "nat \<Rightarrow> 'v ModelAdapter \<Rightarrow> ((nat \<times> string) list \<times> 'v) ModelAdapter" where
  "spy i a =
     CustomAdapter (name a)
       (\<lambda>prompt w.
          (fst (generate a prompt (unlogged w)),
           logged (fst (vendor w) @ [(i, prompt)]) (snd (generate a prompt (unlogged w)))))"

fun spies :: "nat \<Rightarrow> 'v ModelAdapter list \<Rightarrow> ((nat \<times> string) list \<times> 'v) ModelAdapter list" where
  "spies i [] = []"
| "spies i (a # as) = spy i a # spies (Suc i) as"

section \<open>Example clients, adapters and worlds\<close>

definition steady_world :: "unit world" where
  "steady_world = \<lparr>clock = of_nat, ticks = 0, vendor = ()\<rparr>"

fun stepped_back :: "nat \<Rightarrow> rat" where
  "stepped_back 0 = 10"
| "stepped_back (Suc n) = 9"



definition set_back_world :: "unit world" where
  "set_back_world = \<lparr>clock = stepped_back, ticks = 0, vendor = ()\<rparr>"

definition openai_hello :: "unit openai_client" where
  "openai_hello model input v = (Inr \<lparr>output_text = ''hello world'', usage = None\<rparr>, v)"

definition openai_metered :: "unit openai_client" where
  "openai_metered model input v =
     (Inr \<lparr>output_text = ''hello world'', usage = Some \<lparr>total_tokens = 7\<rparr>\<rparr>, v)"

definition openai_negative :: "unit openai_client" where
  "openai_negative model input v =
     (Inr \<lparr>output_text = ''hello world'', usage = Some \<lparr>total_tokens = - 1\<rparr>\<rparr>, v)"

definition openai_down :: "unit openai_client" where
  "openai_down model input v = (Inl (PyException ''Connection error.''), v)"

definition gemini_hello :: "unit gemini_client" where
  "gemini_hello model contents v =
     (Inr \<lparr>gemini_text = ''hello  big world'', usage_metadata = None\<rparr>, v)"

definition gemini_down :: "unit gemini_client" where
  "gemini_down model contents v = (Inl (PyException ''quota exceeded''), v)"

definition fixed_result :: pydict where
  "fixed_result = [''provider'' \<mapsto> PyStr ''mock'', ''text'' \<mapsto> PyStr ''ok'',
                   ''latency'' \<mapsto> PyFloat 0, ''tokens'' \<mapsto> PyInt 1]"

definition mock_fixed :: "unit ModelAdapter" where
  "mock_fixed = CustomAdapter ''mock'' (\<lambda>prompt w. (Inr fixed_result, w))"

definition mock_silent_failure :: "unit ModelAdapter" where
  "mock_silent_failure = CustomAdapter ''mock'' (\<lambda>prompt w. (Inl (PyException []), w))"

definition mock_error_keyed :: "unit ModelAdapter" where
  "mock_error_keyed =
     CustomAdapter ''mock''
       (\<lambda>prompt w. (Inr [''provider'' \<mapsto> PyStr ''mock'', ''error'' \<mapsto> PyStr ''boom''], w))"

section \<open>The loop of the runner\<close>

lemma run_loop_step:
  "run_loop prompt (a # rest) results w =
     run_loop prompt rest (results @ [result_of a (fst (generate a prompt w))])
       (snd (generate a prompt w))"
  by (simp add: result_of_def split: prod.splits sum.splits)

lemma run_loop_results:
  "fst (run_loop prompt as results w) = results @ fst (run_loop prompt as [] w)"
proof (induction as arbitrary: results w)
  case Nil
  show ?case by simp
next
  case (Cons a as)
  show ?case
    unfolding run_loop_step
    by (subst Cons.IH) (subst (2) Cons.IH, simp)
qed

lemma run_loop_length:
  "length (fst (run_loop prompt as results w)) = length results + length as"
  by (induction as arbitrary: results w) (simp_all add: run_loop_step del: run_loop.simps(2))

lemma run_loop_append:
  "run_loop prompt (xs @ ys) results w =
     run_loop prompt ys (fst (run_loop prompt xs results w)) (snd (run_loop prompt xs results w))"
  by (induction xs arbitrary: results w) (simp_all add: run_loop_step del: run_loop.simps(2))

lemma run_loop_world:
  "snd (run_loop prompt as results w) = foldl (\<lambda>w a. snd (generate a prompt w)) w as"
  by (induction as arbitrary: results w) (simp_all add: run_loop_step del: run_loop.simps(2))

lemma run_loop_nth:
  assumes "i < length as"
  shows "fst (run_loop prompt as [] w) ! i =
           result_of (as ! i)
             (fst (generate (as ! i) prompt (snd (run_loop prompt (take i as) [] w))))"
proof -
  have split: "as = take i as @ (as ! i) # drop (Suc i) as"
    using assms by (simp add: id_take_nth_drop)
  define pre where "pre = run_loop prompt (take i as) [] w"
  have len: "length (fst pre) = i"
    using assms by (simp add: pre_def run_loop_length)
  have "run_loop prompt as [] w =
          run_loop prompt ((as ! i) # drop (Suc i) as) (fst pre) (snd pre)"
    by (subst split) (simp add: run_loop_append pre_def)
  then have "fst (run_loop prompt as [] w) =
      (fst pre @ [result_of (as ! i) (fst (generate (as ! i) prompt (snd pre)))])
        @ fst (run_loop prompt (drop (Suc i) as) [] (snd (generate (as ! i) prompt (snd pre))))"
    by (simp only: run_loop_step) (subst run_loop_results, simp)
  then show ?thesis
    using len by (simp add: nth_append pre_def)
qed

lemma run_length: "length (fst (run self prompt w)) = length (adapters self)"
  by (simp add: run_def run_loop_length)

lemma run_nth:
  "i < length (adapters self) \<Longrightarrow>
     fst (run self prompt w) ! i = result_of (adapters self ! i) (outcome_at self prompt i w)"
  by (simp add: run_def run_loop_nth outcome_at_def world_before_def)

lemma run_world:
  "snd (run self prompt w) = foldl (\<lambda>w a. snd (generate a prompt w)) w (adapters self)"
  by (simp add: run_def run_loop_world)

lemma world_before_foldl:
  "world_before self prompt i w =
     foldl (\<lambda>w a. snd (generate a prompt w)) w (take i (adapters self))"
  by (simp add: world_before_def run_world)

lemma result_of_error:
  "result_of a (Inl e) = [''provider'' \<mapsto> PyStr (name a), ''error'' \<mapsto> PyStr (py_str e)]"
  by (simp add: result_of_def)

lemma result_of_value: "result_of a (Inr d) = d"
  by (simp add: result_of_def)

lemma error_dict_shape:
  "is_ErrorResult [''provider'' \<mapsto> PyStr n, ''error'' \<mapsto> PyStr m]"
  "\<not> is_GenerationResult [''provider'' \<mapsto> PyStr n, ''error'' \<mapsto> PyStr m]"
  by (simp_all add: is_ErrorResult_def is_GenerationResult_def)

lemma GenerationResult_no_error:
  "is_GenerationResult d \<Longrightarrow> d ''error'' = None \<and> \<not> is_ErrorResult d"
  by (simp add: is_GenerationResult_def is_ErrorResult_def)

section \<open>The two adapters of the file\<close>

lemma OpenAI_generate_raises:
  "client ''gpt-4.1-mini'' prompt (vendor w) = (Inl e, v) \<Longrightarrow>
     OpenAI_generate client prompt w = (Inl e, w\<lparr>ticks := Suc (ticks w), vendor := v\<rparr>)"
  by (simp add: OpenAI_generate_def time_time_def)

lemma OpenAI_generate_returns:
  "client ''gpt-4.1-mini'' prompt (vendor w) = (Inr response, v) \<Longrightarrow>
     OpenAI_generate client prompt w =
       (Inr [''provider'' \<mapsto> PyStr ''OpenAI GPT-4.1-mini'',
             ''text'' \<mapsto> PyStr (output_text response),
             ''latency'' \<mapsto> PyFloat (py_round2 (clock w (Suc (ticks w)) - clock w (ticks w))),
             ''tokens'' \<mapsto> PyInt (case usage response of
                                      Some u \<Rightarrow> total_tokens u | None \<Rightarrow> 0)],
        w\<lparr>ticks := Suc (Suc (ticks w)), vendor := v\<rparr>)"
  by (simp add: OpenAI_generate_def time_time_def)

lemma Gemini_generate_raises:
  "client ''gemini-1.5-flash'' prompt (vendor w) = (Inl e, v) \<Longrightarrow>
     Gemini_generate client prompt w = (Inl e, w\<lparr>ticks := Suc (ticks w), vendor := v\<rparr>)"
  by (simp add: Gemini_generate_def time_time_def)

lemma Gemini_generate_returns:
  "client ''gemini-1.5-flash'' prompt (vendor w) = (Inr response, v) \<Longrightarrow>
     Gemini_generate client prompt w =
       (Inr [''provider'' \<mapsto> PyStr ''Google Gemini 1.5 Flash'',
             ''text'' \<mapsto> PyStr (gemini_text response),
             ''latency'' \<mapsto> PyFloat (py_round2 (clock w (Suc (ticks w)) - clock w (ticks w))),
             ''tokens'' \<mapsto> PyInt (case usage_metadata response of
                                      Some u \<Rightarrow> total_token_count u
                                    | None \<Rightarrow> int (length (py_split (gemini_text response))))],
        w\<lparr>ticks := Suc (Suc (ticks w)), vendor := v\<rparr>)"
  by (simp add: Gemini_generate_def time_time_def)

lemma builtin_returns_GenerationResult:
  assumes "is_builtin a" and "fst (generate a prompt w) = Inr d"
  shows "is_GenerationResult d \<and> d ''provider'' = Some (PyStr (name a))"
proof (cases a)
  case (OpenAIAdapter c)
  obtain r v where call: "c ''gpt-4.1-mini'' prompt (vendor w) = (r, v)"
    by (cases "c ''gpt-4.1-mini'' prompt (vendor w)")
  show ?thesis
  proof (cases r)
    case (Inl e)
    with call assms OpenAIAdapter show ?thesis
      by (simp add: OpenAI_generate_raises)
  next
    case (Inr response)
    with call assms OpenAIAdapter show ?thesis
      by (auto simp: OpenAI_generate_returns is_GenerationResult_def)
  qed
next
  case (GeminiAdapter c)
  obtain r v where call: "c ''gemini-1.5-flash'' prompt (vendor w) = (r, v)"
    by (cases "c ''gemini-1.5-flash'' prompt (vendor w)")
  show ?thesis
  proof (cases r)
    case (Inl e)
    with call assms GeminiAdapter show ?thesis
      by (simp add: Gemini_generate_raises)
  next
    case (Inr response)
    with call assms GeminiAdapter show ?thesis
      by (auto simp: Gemini_generate_returns is_GenerationResult_def)
  qed
next
  case (CustomAdapter n g)
  with assms show ?thesis by simp
qed

lemma foldl_effect_update:
  fixes as :: "'v ModelAdapter list"
  assumes "i < length as"
    and "\<forall>w'. snd (generate a' prompt w') = snd (generate (as ! i) prompt w')"
  shows "foldl (\<lambda>w a. snd (generate a prompt w)) w (take j (as[i := a'])) =
         foldl (\<lambda>w a. snd (generate a prompt w)) w (take j as)"
proof -
  define F where "F = (\<lambda>(a :: 'v ModelAdapter) w. snd (generate a prompt w))"
  have same: "F a' = F (as ! i)"
    using assms(2) by (simp add: F_def fun_eq_iff)
  have "map F (as[i := a']) = (map F as)[i := F (as ! i)]"
    by (simp add: map_update same)
  also have "\<dots> = map F as"
    using assms(1) by (metis list_update_id nth_map)
  finally have "take j (map F (as[i := a'])) = take j (map F as)"
    by simp
  then have maps: "map F (take j (as[i := a'])) = map F (take j as)"
    by (simp only: take_map)
  have "foldl (\<lambda>w a. F a w) w xs = foldl (\<lambda>w g. g w) w (map F xs)" for xs
    by (simp add: foldl_map)
  then have "foldl (\<lambda>w a. F a w) w (take j (as[i := a'])) = foldl (\<lambda>w a. F a w) w (take j as)"
    by (simp add: maps)
  then show ?thesis by (simp add: F_def)
qed

lemma replaced_world_before:
  assumes "i < length (adapters self)"
    and "\<forall>w'. snd (generate a' prompt w') = snd (generate (adapters self ! i) prompt w')"
  shows "world_before (self\<lparr>adapters := (adapters self)[i := a']\<rparr>) prompt j w =
         world_before self prompt j w"
  using foldl_effect_update [OF assms] by (simp add: world_before_foldl)

lemma replaced_world_after:
  assumes "i < length (adapters self)"
    and "\<forall>w'. snd (generate a' prompt w') = snd (generate (adapters self ! i) prompt w')"
  shows "snd (run (self\<lparr>adapters := (adapters self)[i := a']\<rparr>) prompt w) =
         snd (run self prompt w)"
  using foldl_effect_update [OF assms, of w "length (adapters self)"] by (simp add: run_world)

lemma replaced_result_elsewhere:
  assumes "i < length (adapters self)"
    and "\<forall>w'. snd (generate a' prompt w') = snd (generate (adapters self ! i) prompt w')"
    and "j < length (adapters self)" and "j \<noteq> i"
  shows "fst (run (self\<lparr>adapters := (adapters self)[i := a']\<rparr>) prompt w) ! j =
         fst (run self prompt w) ! j"
proof -
  let ?self' = "self\<lparr>adapters := (adapters self)[i := a']\<rparr>"
  have "outcome_at ?self' prompt j w = outcome_at self prompt j w"
    using assms(4) by (simp add: outcome_at_def replaced_world_before [OF assms(1,2)])
  moreover have "adapters ?self' ! j = adapters self ! j"
    using assms(4) by simp
  moreover have "j < length (adapters ?self')"
    using assms(3) by simp
  ultimately show ?thesis
    using assms(3) by (simp add: run_nth del: BenchmarkRunner.simps)
qed

section \<open>Properties of the runner\<close>

text \<open>
  C1. For every list of adapters and every prompt, \<open>run\<close> returns exactly one result
  per adapter, and the result at position \<open>i\<close> comes from the adapter at position
  \<open>i\<close>: it is what the loop appends for the call of that adapter, made in the world
  that the adapters before it left behind. Where that adapter raised, or is one of the
  two adapters of the file, the result names that adapter as its provider.
\<close>

theorem run_results_in_adapter_order:
  "length (fst (run self prompt w)) = length (adapters self) \<and>
   (\<forall>i < length (adapters self).
      fst (run self prompt w) ! i = result_of (adapters self ! i) (outcome_at self prompt i w) \<and>
      (isl (outcome_at self prompt i w) \<or> is_builtin (adapters self ! i) \<longrightarrow>
         (fst (run self prompt w) ! i) ''provider'' = Some (PyStr (name (adapters self ! i)))))"
proof (intro conjI allI impI)
  show "length (fst (run self prompt w)) = length (adapters self)"
    by (rule run_length)
next
  fix i assume i: "i < length (adapters self)"
  then show "fst (run self prompt w) ! i =
               result_of (adapters self ! i) (outcome_at self prompt i w)"
    by (rule run_nth)
next
  fix i
  assume i: "i < length (adapters self)"
    and src: "isl (outcome_at self prompt i w) \<or> is_builtin (adapters self ! i)"
  show "(fst (run self prompt w) ! i) ''provider'' = Some (PyStr (name (adapters self ! i)))"
  proof (cases "outcome_at self prompt i w")
    case (Inl e)
    then show ?thesis using i by (simp add: run_nth result_of_error)
  next
    case (Inr d)
    with src have "is_builtin (adapters self ! i)" by simp
    with Inr have "d ''provider'' = Some (PyStr (name (adapters self ! i)))"
      using builtin_returns_GenerationResult by (simp add: outcome_at_def) blast
    with Inr show ?thesis using i by (simp add: run_nth result_of_value)
  qed
qed

theorem run_results_in_adapter_order_witness:
  "length (fst (run \<lparr>adapters = [OpenAIAdapter openai_hello, GeminiAdapter gemini_down]\<rparr>
                  ''hi'' steady_world)) = 2 \<and>
   (fst (run \<lparr>adapters = [OpenAIAdapter openai_hello, GeminiAdapter gemini_down]\<rparr>
           ''hi'' steady_world) ! 0) ''provider'' = Some (PyStr ''OpenAI GPT-4.1-mini'') \<and>
   (fst (run \<lparr>adapters = [OpenAIAdapter openai_hello, GeminiAdapter gemini_down]\<rparr>
           ''hi'' steady_world) ! 1) ''provider'' = Some (PyStr ''Google Gemini 1.5 Flash'')"
proof -
  let ?self = "\<lparr>adapters = [OpenAIAdapter openai_hello, GeminiAdapter gemini_down]\<rparr>"
  note fact = run_results_in_adapter_order [of ?self "''hi''" steady_world]
  have len: "length (fst (run ?self ''hi'' steady_world)) = 2"
    using fact [THEN conjunct1] by simp
  have first: "(fst (run ?self ''hi'' steady_world) ! 0) ''provider'' =
        Some (PyStr ''OpenAI GPT-4.1-mini'')"
    using fact [THEN conjunct2, rule_format, of 0, THEN conjunct2] by simp
  have second: "(fst (run ?self ''hi'' steady_world) ! 1) ''provider'' =
        Some (PyStr ''Google Gemini 1.5 Flash'')"
    using fact [THEN conjunct2, rule_format, of 1, THEN conjunct2] by simp
  from len first second show ?thesis by simp
qed

text \<open>
  C5. An adapter whose \<open>generate\<close> returns the same value \<open>v\<close> for every prompt and
  in every world, never raising, has exactly \<open>v\<close> at its position in the list that
  \<open>run\<close> returns, whatever the other adapters of the list do.
\<close>

theorem run_passes_fixed_result_through:
  assumes "\<forall>p w'. fst (generate a p w') = Inr v"
    and "i < length (adapters self)"
    and "adapters self ! i = a"
  shows "fst (run self prompt w) ! i = v"
  using assms by (simp add: run_nth outcome_at_def result_of_value)

theorem run_passes_fixed_result_through_witness:
  "(\<forall>p w'. fst (generate mock_fixed p w') = Inr fixed_result) \<and>
   (1 :: nat) < length (adapters \<lparr>adapters = [GeminiAdapter gemini_down, mock_fixed]\<rparr>) \<and>
   fst (run \<lparr>adapters = [GeminiAdapter gemini_down, mock_fixed]\<rparr> ''hi'' steady_world) ! 1 =
     fixed_result"
proof -
  have always: "\<forall>p w'. fst (generate mock_fixed p w') = Inr fixed_result"
    by (simp add: mock_fixed_def)
  have pos: "(1 :: nat) < length (adapters \<lparr>adapters = [GeminiAdapter gemini_down, mock_fixed]\<rparr>)"
    by simp
  have at: "adapters \<lparr>adapters = [GeminiAdapter gemini_down, mock_fixed]\<rparr> ! 1 = mock_fixed"
    by simp
  from run_passes_fixed_result_through [OF always pos at, of "''hi''" steady_world] always pos
  show ?thesis by blast
qed

text \<open>
  C2. If the call of the adapter at position \<open>i\<close> raises an exception \<open>e\<close>, then
  \<open>run\<close> still returns one result per adapter; the result at position \<open>i\<close> is the
  error dictionary with the name of that adapter and \<open>str(e)\<close>; every other adapter
  is called with the same prompt in the world its predecessors left, and its result is
  the one of its own call. Had the adapter at position \<open>i\<close> been any other adapter
  \<open>a'\<close> with the same effect on the world (one that returns instead of raising, for
  example), all other results and the final world would be the same.
\<close>

theorem run_isolates_failing_adapter:
  assumes "i < length (adapters self)"
    and "outcome_at self prompt i w = Inl e"
  shows "length (fst (run self prompt w)) = length (adapters self) \<and>
         fst (run self prompt w) ! i =
           [''provider'' \<mapsto> PyStr (name (adapters self ! i)), ''error'' \<mapsto> PyStr (py_str e)] \<and>
         (\<forall>j < length (adapters self). j \<noteq> i \<longrightarrow>
            fst (run self prompt w) ! j =
              result_of (adapters self ! j) (outcome_at self prompt j w)) \<and>
         (\<forall>a'. (\<forall>w'. snd (generate a' prompt w') =
                       snd (generate (adapters self ! i) prompt w')) \<longrightarrow>
            snd (run (self\<lparr>adapters := (adapters self)[i := a']\<rparr>) prompt w) =
              snd (run self prompt w) \<and>
            (\<forall>j < length (adapters self). j \<noteq> i \<longrightarrow>
               fst (run (self\<lparr>adapters := (adapters self)[i := a']\<rparr>) prompt w) ! j =
                 fst (run self prompt w) ! j))"
proof (intro conjI allI impI)
  show "length (fst (run self prompt w)) = length (adapters self)"
    by (rule run_length)
  show "fst (run self prompt w) ! i =
          [''provider'' \<mapsto> PyStr (name (adapters self ! i)), ''error'' \<mapsto> PyStr (py_str e)]"
    using assms by (simp add: run_nth result_of_error)
next
  fix j assume "j < length (adapters self)"
  then show "fst (run self prompt w) ! j =
               result_of (adapters self ! j) (outcome_at self prompt j w)"
    by (rule run_nth)
next
  fix a'
  assume same: "\<forall>w'. snd (generate a' prompt w') = snd (generate (adapters self ! i) prompt w')"
  show "snd (run (self\<lparr>adapters := (adapters self)[i := a']\<rparr>) prompt w) =
          snd (run self prompt w)"
    using assms(1) same by (rule replaced_world_after)
  fix j assume "j < length (adapters self)" and "j \<noteq> i"
  with assms(1) same
  show "fst (run (self\<lparr>adapters := (adapters self)[i := a']\<rparr>) prompt w) ! j =
          fst (run self prompt w) ! j"
    by (rule replaced_result_elsewhere)
qed

lemma example_first_fails:
  "outcome_at \<lparr>adapters = [OpenAIAdapter openai_down, GeminiAdapter gemini_hello]\<rparr>
     ''hi'' 0 steady_world = Inl (PyException ''Connection error.'')"
  by (simp add: outcome_at_def world_before_def run_def OpenAI_generate_def time_time_def
      openai_down_def steady_world_def)

lemma example_second_returns:
  "outcome_at \<lparr>adapters = [OpenAIAdapter openai_down, GeminiAdapter gemini_hello]\<rparr>
     ''hi'' (Suc 0) steady_world =
   Inr [''provider'' \<mapsto> PyStr ''Google Gemini 1.5 Flash'',
        ''text'' \<mapsto> PyStr ''hello  big world'',
        ''latency'' \<mapsto> PyFloat 1,
        ''tokens'' \<mapsto> PyInt 3]"
  by (simp add: outcome_at_def world_before_def run_def OpenAI_generate_def Gemini_generate_def
      time_time_def openai_down_def gemini_hello_def steady_world_def py_split_def
      py_isspace_def py_round2_def round_half_even_def)

theorem run_isolates_failing_adapter_witness:
  "(0 :: nat) < length (adapters \<lparr>adapters = [OpenAIAdapter openai_down, GeminiAdapter gemini_hello]\<rparr>) \<and>
   outcome_at \<lparr>adapters = [OpenAIAdapter openai_down, GeminiAdapter gemini_hello]\<rparr>
     ''hi'' 0 steady_world = Inl (PyException ''Connection error.'') \<and>
   fst (run \<lparr>adapters = [OpenAIAdapter openai_down, GeminiAdapter gemini_hello]\<rparr>
          ''hi'' steady_world) ! 0 =
     [''provider'' \<mapsto> PyStr ''OpenAI GPT-4.1-mini'', ''error'' \<mapsto> PyStr ''Connection error.''] \<and>
   fst (run \<lparr>adapters = [OpenAIAdapter openai_down, GeminiAdapter gemini_hello]\<rparr>
          ''hi'' steady_world) ! 1 =
     [''provider'' \<mapsto> PyStr ''Google Gemini 1.5 Flash'',
      ''text'' \<mapsto> PyStr ''hello  big world'',
      ''latency'' \<mapsto> PyFloat 1,
      ''tokens'' \<mapsto> PyInt 3]"
proof -
  let ?self = "\<lparr>adapters = [OpenAIAdapter openai_down, GeminiAdapter gemini_hello]\<rparr>"
  have pos: "(0 :: nat) < length (adapters ?self)" by simp
  note fact = run_isolates_failing_adapter [OF pos example_first_fails]
  have first: "fst (run ?self ''hi'' steady_world) ! 0 =
      [''provider'' \<mapsto> PyStr ''OpenAI GPT-4.1-mini'', ''error'' \<mapsto> PyStr ''Connection error.'']"
    using fact [THEN conjunct2, THEN conjunct1] by simp
  have "fst (run ?self ''hi'' steady_world) ! 1 =
      result_of (adapters ?self ! 1) (outcome_at ?self ''hi'' 1 steady_world)"
    using fact [THEN conjunct2, THEN conjunct2, THEN conjunct1, rule_format, of 1] by simp
  then have second: "fst (run ?self ''hi'' steady_world) ! 1 =
      [''provider'' \<mapsto> PyStr ''Google Gemini 1.5 Flash'',
       ''text'' \<mapsto> PyStr ''hello  big world'',
       ''latency'' \<mapsto> PyFloat 1,
       ''tokens'' \<mapsto> PyInt 3]"
    by (simp add: example_second_returns result_of_value)
  from pos example_first_fails first second show ?thesis by blast
qed

text \<open>
  C7, as the code has it. If the call of the adapter at position \<open>i\<close> raises an
  exception \<open>e\<close>, the result at position \<open>i\<close> is an ErrorResult that carries the name
  of that adapter as provider and \<open>str(e)\<close> as error message. The message is copied
  as it is: it is non-empty exactly when \<open>str(e)\<close> is.
\<close>

theorem run_error_result_carries_name_and_str:
  assumes "i < length (adapters self)"
    and "outcome_at self prompt i w = Inl e"
  shows "is_ErrorResult (fst (run self prompt w) ! i) \<and>
         (fst (run self prompt w) ! i) ''provider'' = Some (PyStr (name (adapters self ! i))) \<and>
         (fst (run self prompt w) ! i) ''error'' = Some (PyStr (py_str e)) \<and>
         ((fst (run self prompt w) ! i) ''error'' \<noteq> Some (PyStr []) \<longleftrightarrow> py_str e \<noteq> [])"
  using assms by (simp add: run_nth result_of_error is_ErrorResult_def)

theorem run_error_result_carries_name_and_str_witness:
  "(0 :: nat) < length (adapters \<lparr>adapters = [OpenAIAdapter openai_down, GeminiAdapter gemini_hello]\<rparr>) \<and>
   outcome_at \<lparr>adapters = [OpenAIAdapter openai_down, GeminiAdapter gemini_hello]\<rparr>
     ''hi'' 0 steady_world = Inl (PyException ''Connection error.'') \<and>
   (fst (run \<lparr>adapters = [OpenAIAdapter openai_down, GeminiAdapter gemini_hello]\<rparr>
           ''hi'' steady_world) ! 0) ''provider'' = Some (PyStr ''OpenAI GPT-4.1-mini'') \<and>
   (fst (run \<lparr>adapters = [OpenAIAdapter openai_down, GeminiAdapter gemini_hello]\<rparr>
           ''hi'' steady_world) ! 0) ''error'' = Some (PyStr ''Connection error.'')"
proof -
  let ?self = "\<lparr>adapters = [OpenAIAdapter openai_down, GeminiAdapter gemini_hello]\<rparr>"
  have pos: "(0 :: nat) < length (adapters ?self)" by simp
  note fact = run_error_result_carries_name_and_str [OF pos example_first_fails]
  have provider: "(fst (run ?self ''hi'' steady_world) ! 0) ''provider'' =
      Some (PyStr ''OpenAI GPT-4.1-mini'')"
    using fact [THEN conjunct2, THEN conjunct1] by simp
  have message: "(fst (run ?self ''hi'' steady_world) ! 0) ''error'' =
      Some (PyStr ''Connection error.'')"
    using fact [THEN conjunct2, THEN conjunct2, THEN conjunct1] by simp
  from pos example_first_fails provider message show ?thesis by blast
qed

text \<open>
  The claim C7 as it is written asks for a non-empty error message. An adapter that
  raises an exception without arguments, whose \<open>str\<close> is the empty string, gets an
  ErrorResult with the empty message.
\<close>

theorem run_error_message_empty_counterexample:
  "outcome_at \<lparr>adapters = [mock_silent_failure]\<rparr> ''hi'' 0 steady_world = Inl (PyException []) \<and>
   (fst (run \<lparr>adapters = [mock_silent_failure]\<rparr> ''hi'' steady_world) ! 0) ''error'' =
     Some (PyStr [])"
  by (simp add: outcome_at_def world_before_def run_def mock_silent_failure_def)

text \<open>
  C4, as the code has it. \<open>run\<close> produces one result per adapter. Where the call of
  the adapter raised, the result is an ErrorResult, is not a GenerationResult and has
  the key \<open>error\<close> (the test of \<open>main\<close>). Where the adapter is one of the two
  adapters of the file, or its call raised or returned a GenerationResult, the result
  is a GenerationResult or an ErrorResult and not both, and it has the key \<open>error\<close>
  exactly when the call raised. What another adapter returns is appended unchecked.
\<close>

theorem run_result_shapes_exclusive:
  "length (fst (run self prompt w)) = length (adapters self) \<and>
   (\<forall>i < length (adapters self).
      (isl (outcome_at self prompt i w) \<longrightarrow>
         is_ErrorResult (fst (run self prompt w) ! i) \<and>
         \<not> is_GenerationResult (fst (run self prompt w) ! i) \<and>
         ''error'' \<in> dom (fst (run self prompt w) ! i)) \<and>
      (is_builtin (adapters self ! i) \<or>
       (\<forall>d. outcome_at self prompt i w = Inr d \<longrightarrow> is_GenerationResult d) \<longrightarrow>
         (is_GenerationResult (fst (run self prompt w) ! i) \<noteq>
            is_ErrorResult (fst (run self prompt w) ! i)) \<and>
         (''error'' \<in> dom (fst (run self prompt w) ! i) \<longleftrightarrow>
            isl (outcome_at self prompt i w)) \<and>
         (is_ErrorResult (fst (run self prompt w) ! i) \<longleftrightarrow>
            isl (outcome_at self prompt i w))))"
proof (intro conjI allI impI)
  show "length (fst (run self prompt w)) = length (adapters self)"
    by (rule run_length)
next
  fix i assume i: "i < length (adapters self)"
  let ?r = "fst (run self prompt w) ! i"
  have raised: "is_ErrorResult ?r \<and> \<not> is_GenerationResult ?r \<and> ''error'' \<in> dom ?r"
    if "isl (outcome_at self prompt i w)"
  proof -
    from that obtain e where "outcome_at self prompt i w = Inl e"
      by (cases "outcome_at self prompt i w") simp_all
    then have "?r = [''provider'' \<mapsto> PyStr (name (adapters self ! i)),
                     ''error'' \<mapsto> PyStr (py_str e)]"
      using i by (simp add: run_nth result_of_error)
    then show ?thesis by (simp add: error_dict_shape)
  qed
  have kept: "(is_GenerationResult ?r \<noteq> is_ErrorResult ?r) \<and>
              (''error'' \<in> dom ?r \<longleftrightarrow> isl (outcome_at self prompt i w)) \<and>
              (is_ErrorResult ?r \<longleftrightarrow> isl (outcome_at self prompt i w))"
    if contract: "is_builtin (adapters self ! i) \<or>
                  (\<forall>d. outcome_at self prompt i w = Inr d \<longrightarrow> is_GenerationResult d)"
  proof (cases "outcome_at self prompt i w")
    case (Inl e)
    then show ?thesis using raised by simp
  next
    case (Inr d)
    then have r: "?r = d"
      using i by (simp add: run_nth result_of_value)
    have "is_GenerationResult d"
      using contract
    proof
      assume "is_builtin (adapters self ! i)"
      with Inr show ?thesis
        using builtin_returns_GenerationResult by (simp add: outcome_at_def) blast
    next
      assume "\<forall>d. outcome_at self prompt i w = Inr d \<longrightarrow> is_GenerationResult d"
      with Inr show ?thesis by simp
    qed
    with Inr r show ?thesis
      using GenerationResult_no_error [of d] by (auto simp: dom_def)
  qed
  {
    assume "isl (outcome_at self prompt i w)"
    with raised show "is_ErrorResult ?r" and "\<not> is_GenerationResult ?r"
      and "''error'' \<in> dom ?r"
      by simp_all
  }
  {
    assume "is_builtin (adapters self ! i) \<or>
            (\<forall>d. outcome_at self prompt i w = Inr d \<longrightarrow> is_GenerationResult d)"
    with kept show "is_GenerationResult ?r \<noteq> is_ErrorResult ?r"
      and "''error'' \<in> dom ?r \<longleftrightarrow> isl (outcome_at self prompt i w)"
      and "is_ErrorResult ?r \<longleftrightarrow> isl (outcome_at self prompt i w)"
      by simp_all
  }
qed

theorem run_result_shapes_exclusive_witness:
  "is_ErrorResult (fst (run \<lparr>adapters = [OpenAIAdapter openai_down, GeminiAdapter gemini_hello]\<rparr>
                          ''hi'' steady_world) ! 0) \<and>
   \<not> is_ErrorResult (fst (run \<lparr>adapters = [OpenAIAdapter openai_down, GeminiAdapter gemini_hello]\<rparr>
                            ''hi'' steady_world) ! 1) \<and>
   is_GenerationResult (fst (run \<lparr>adapters = [OpenAIAdapter openai_down, GeminiAdapter gemini_hello]\<rparr>
                               ''hi'' steady_world) ! 1)"
proof -
  let ?self = "\<lparr>adapters = [OpenAIAdapter openai_down, GeminiAdapter gemini_hello]\<rparr>"
  note fact = run_result_shapes_exclusive [of ?self "''hi''" steady_world,
      THEN conjunct2, rule_format]
  have first: "is_ErrorResult (fst (run ?self ''hi'' steady_world) ! 0)"
    using fact [of 0, THEN conjunct1, rule_format] by (simp add: example_first_fails)
  have builtin: "is_builtin (adapters ?self ! 1) \<or>
      (\<forall>d. outcome_at ?self ''hi'' 1 steady_world = Inr d \<longrightarrow> is_GenerationResult d)"
    by simp
  have pos: "1 < length (adapters ?self)" by simp
  note second = fact [of 1, OF pos, THEN conjunct2, rule_format, OF builtin]
  have no: "\<not> is_ErrorResult (fst (run ?self ''hi'' steady_world) ! 1)"
    using second [THEN conjunct2, THEN conjunct2] by (simp add: example_second_returns)
  then have "is_GenerationResult (fst (run ?self ''hi'' steady_world) ! 1)"
    using second [THEN conjunct1] by simp
  with first no show ?thesis by blast
qed

text \<open>
  The claim C4 as it is written covers every adapter sequence. An adapter whose
  \<open>generate\<close> returns, without raising, a dictionary that has the key \<open>error\<close> gets
  that dictionary as its result: the result has the error field and the shape of an
  ErrorResult although the call did not raise.
\<close>

theorem run_error_key_without_raise_counterexample:
  "outcome_at \<lparr>adapters = [mock_error_keyed]\<rparr> ''hi'' 0 steady_world =
     Inr [''provider'' \<mapsto> PyStr ''mock'', ''error'' \<mapsto> PyStr ''boom''] \<and>
   (fst (run \<lparr>adapters = [mock_error_keyed]\<rparr> ''hi'' steady_world) ! 0) ''error'' =
     Some (PyStr ''boom'') \<and>
   is_ErrorResult (fst (run \<lparr>adapters = [mock_error_keyed]\<rparr> ''hi'' steady_world) ! 0)"
  by (simp add: outcome_at_def world_before_def run_def mock_error_keyed_def is_ErrorResult_def)

section \<open>Token counts of the two adapters\<close>

lemma OpenAI_tokens_without_usage:
  assumes "client ''gpt-4.1-mini'' prompt (vendor w) = (Inr response, v)"
    and "usage response = None"
  shows "field ''tokens'' (fst (generate (OpenAIAdapter client) prompt w)) = Some (PyInt 0)"
  using assms by (simp add: OpenAI_generate_returns field_def)

lemma Gemini_tokens_without_usage:
  assumes "client ''gemini-1.5-flash'' prompt (vendor w) = (Inr response, v)"
    and "usage_metadata response = None"
  shows "field ''tokens'' (fst (generate (GeminiAdapter client) prompt w)) =
           Some (PyInt (int (length (py_split (gemini_text response)))))"
  using assms by (simp add: Gemini_generate_returns field_def)

lemma py_split_hello_world: "py_split ''hello world'' = [''hello'', ''world'']"
  by (simp add: py_split_def py_isspace_def)

lemma py_split_hello_big_world: "py_split ''hello  big world'' = [''hello'', ''big'', ''world'']"
  by (simp add: py_split_def py_isspace_def)

text \<open>
  C10. When the response of the OpenAI client has no usage data, \<open>generate\<close> of the
  OpenAI adapter returns a GenerationResult whose token count is 0, whatever the text
  of the response is.
\<close>

theorem OpenAI_token_count_zero_without_usage:
  assumes "client ''gpt-4.1-mini'' prompt (vendor w) = (Inr response, v)"
    and "usage response = None"
  shows "\<exists>d. fst (generate (OpenAIAdapter client) prompt w) = Inr d \<and>
             is_GenerationResult d \<and>
             d ''tokens'' = Some (PyInt 0) \<and>
             d ''text'' = Some (PyStr (output_text response))"
  using assms by (simp add: OpenAI_generate_returns is_GenerationResult_def)

theorem OpenAI_token_count_zero_without_usage_witness:
  "openai_hello ''gpt-4.1-mini'' ''hi'' (vendor steady_world) =
     (Inr \<lparr>output_text = ''hello world'', usage = None\<rparr>, ()) \<and>
   usage \<lparr>output_text = ''hello world'', usage = None\<rparr> = None \<and>
   (\<exists>d. fst (generate (OpenAIAdapter openai_hello) ''hi'' steady_world) = Inr d \<and>
        is_GenerationResult d \<and>
        d ''tokens'' = Some (PyInt 0) \<and>
        d ''text'' = Some (PyStr ''hello world''))"
proof -
  have call: "openai_hello ''gpt-4.1-mini'' ''hi'' (vendor steady_world) =
      (Inr \<lparr>output_text = ''hello world'', usage = None\<rparr>, ())"
    by (simp add: openai_hello_def)
  have none: "usage \<lparr>output_text = ''hello world'', usage = None\<rparr> = None"
    by simp
  from OpenAI_token_count_zero_without_usage
      [of openai_hello "''hi''" steady_world "\<lparr>output_text = ''hello world'', usage = None\<rparr>" "()",
       OF call none] call none
  show ?thesis by simp
qed

text \<open>
  C3, as the code has it. When the response of the Gemini client has no usage
  metadata, the token count that the Gemini adapter returns is the number of words of
  the response text, split at whitespace. When the response of the OpenAI client has no
  usage data, the token count that the OpenAI adapter returns is that word count only
  if the text has no word at all.
\<close>

theorem token_count_fallback_by_adapter:
  "(gclient ''gemini-1.5-flash'' prompt (vendor w) = (Inr gresponse, v) \<and>
    usage_metadata gresponse = None \<longrightarrow>
      field ''tokens'' (fst (generate (GeminiAdapter gclient) prompt w)) =
        Some (PyInt (int (length (py_split (gemini_text gresponse))))) \<and>
      field ''text'' (fst (generate (GeminiAdapter gclient) prompt w)) =
        Some (PyStr (gemini_text gresponse))) \<and>
   (oclient ''gpt-4.1-mini'' prompt (vendor w) = (Inr oresponse, v') \<and>
    usage oresponse = None \<longrightarrow>
      (field ''tokens'' (fst (generate (OpenAIAdapter oclient) prompt w)) =
         Some (PyInt (int (length (py_split (output_text oresponse))))) \<longleftrightarrow>
       py_split (output_text oresponse) = []))"
proof (intro conjI impI)
  assume g: "gclient ''gemini-1.5-flash'' prompt (vendor w) = (Inr gresponse, v) \<and>
             usage_metadata gresponse = None"
  then have call: "gclient ''gemini-1.5-flash'' prompt (vendor w) = (Inr gresponse, v)"
    and none: "usage_metadata gresponse = None"
    by simp_all
  from call none
  show "field ''tokens'' (fst (generate (GeminiAdapter gclient) prompt w)) =
          Some (PyInt (int (length (py_split (gemini_text gresponse)))))"
    by (rule Gemini_tokens_without_usage)
  from g show "field ''text'' (fst (generate (GeminiAdapter gclient) prompt w)) =
                 Some (PyStr (gemini_text gresponse))"
    by (simp add: Gemini_generate_returns field_def)
next
  assume "oclient ''gpt-4.1-mini'' prompt (vendor w) = (Inr oresponse, v') \<and>
          usage oresponse = None"
  then have call: "oclient ''gpt-4.1-mini'' prompt (vendor w) = (Inr oresponse, v')"
    and none: "usage oresponse = None"
    by simp_all
  from call none
  have "field ''tokens'' (fst (generate (OpenAIAdapter oclient) prompt w)) = Some (PyInt 0)"
    by (rule OpenAI_tokens_without_usage)
  then show "field ''tokens'' (fst (generate (OpenAIAdapter oclient) prompt w)) =
               Some (PyInt (int (length (py_split (output_text oresponse))))) \<longleftrightarrow>
             py_split (output_text oresponse) = []"
    by auto
qed

theorem token_count_fallback_by_adapter_witness:
  "gemini_hello ''gemini-1.5-flash'' ''hi'' (vendor steady_world) =
     (Inr \<lparr>gemini_text = ''hello  big world'', usage_metadata = None\<rparr>, ()) \<and>
   openai_hello ''gpt-4.1-mini'' ''hi'' (vendor steady_world) =
     (Inr \<lparr>output_text = ''hello world'', usage = None\<rparr>, ()) \<and>
   field ''tokens'' (fst (generate (GeminiAdapter gemini_hello) ''hi'' steady_world)) =
     Some (PyInt 3) \<and>
   field ''tokens'' (fst (generate (OpenAIAdapter openai_hello) ''hi'' steady_world)) \<noteq>
     Some (PyInt 2)"
proof -
  have g: "gemini_hello ''gemini-1.5-flash'' ''hi'' (vendor steady_world) =
      (Inr \<lparr>gemini_text = ''hello  big world'', usage_metadata = None\<rparr>, ())"
    by (simp add: gemini_hello_def)
  have o: "openai_hello ''gpt-4.1-mini'' ''hi'' (vendor steady_world) =
      (Inr \<lparr>output_text = ''hello world'', usage = None\<rparr>, ())"
    by (simp add: openai_hello_def)
  note fact = token_count_fallback_by_adapter
    [of gemini_hello "''hi''" steady_world
        "\<lparr>gemini_text = ''hello  big world'', usage_metadata = None\<rparr>" "()"
        openai_hello "\<lparr>output_text = ''hello world'', usage = None\<rparr>" "()"]
  have gem: "field ''tokens'' (fst (generate (GeminiAdapter gemini_hello) ''hi'' steady_world)) =
      Some (PyInt 3)"
    using fact [THEN conjunct1] g by (simp add: py_split_hello_big_world)
  have opn: "field ''tokens'' (fst (generate (OpenAIAdapter openai_hello) ''hi'' steady_world)) \<noteq>
      Some (PyInt 2)"
    using fact [THEN conjunct2] o by (simp add: py_split_hello_world)
  from g o gem opn show ?thesis by blast
qed

text \<open>
  The claim C3 as it is written covers the OpenAI adapter too. For a response with the
  text \<open>hello world\<close> (two words) and no usage data, the OpenAI adapter returns the
  token count 0.
\<close>

theorem OpenAI_word_count_fallback_counterexample:
  "usage \<lparr>output_text = ''hello world'', usage = None\<rparr> = None \<and>
   fst (openai_hello ''gpt-4.1-mini'' ''hi'' ()) =
     Inr \<lparr>output_text = ''hello world'', usage = None\<rparr> \<and>
   field ''text'' (fst (generate (OpenAIAdapter openai_hello) ''hi'' steady_world)) =
     Some (PyStr ''hello world'') \<and>
   int (length (py_split ''hello world'')) = 2 \<and>
   field ''tokens'' (fst (generate (OpenAIAdapter openai_hello) ''hi'' steady_world)) =
     Some (PyInt 0)"
  by (simp add: OpenAI_generate_def time_time_def openai_hello_def steady_world_def field_def
      py_split_hello_world)

section \<open>Sign of the measured values\<close>

lemma round_half_even_nonneg: "0 \<le> x \<Longrightarrow> 0 \<le> round_half_even x"
proof -
  assume "0 \<le> x"
  then have "0 \<le> \<lfloor>x\<rfloor>" by simp
  then show ?thesis by (simp add: round_half_even_def Let_def)
qed

lemma py_round2_nonneg: "0 \<le> x \<Longrightarrow> 0 \<le> py_round2 x"
  by (simp add: py_round2_def round_half_even_nonneg)

lemma builtin_generate_metrics:
  assumes "is_builtin a"
    and "fst (generate a prompt w) = Inr d"
    and "clock w (ticks w) \<le> clock w (Suc (ticks w))"
    and "\<forall>t. reported_total a prompt w = Some t \<longrightarrow> 0 \<le> t"
  shows "nonneg_metrics d"
proof (cases a)
  case (OpenAIAdapter c)
  obtain r v where call: "c ''gpt-4.1-mini'' prompt (vendor w) = (r, v)"
    by (cases "c ''gpt-4.1-mini'' prompt (vendor w)")
  show ?thesis
  proof (cases r)
    case (Inl e)
    with call assms(2) OpenAIAdapter show ?thesis
      by (simp add: OpenAI_generate_raises)
  next
    case (Inr response)
    have tokens: "0 \<le> (case usage response of Some u \<Rightarrow> total_tokens u | None \<Rightarrow> 0)"
      using assms(4) call Inr OpenAIAdapter by (cases "usage response") simp_all
    have "0 \<le> py_round2 (clock w (Suc (ticks w)) - clock w (ticks w))"
      using assms(3) by (simp add: py_round2_nonneg)
    with tokens call Inr assms(2) OpenAIAdapter show ?thesis
      by (auto simp: OpenAI_generate_returns nonneg_metrics_def)
  qed
next
  case (GeminiAdapter c)
  obtain r v where call: "c ''gemini-1.5-flash'' prompt (vendor w) = (r, v)"
    by (cases "c ''gemini-1.5-flash'' prompt (vendor w)")
  show ?thesis
  proof (cases r)
    case (Inl e)
    with call assms(2) GeminiAdapter show ?thesis
      by (simp add: Gemini_generate_raises)
  next
    case (Inr response)
    have tokens: "0 \<le> (case usage_metadata response of
                          Some u \<Rightarrow> total_token_count u
                        | None \<Rightarrow> int (length (py_split (gemini_text response))))"
      using assms(4) call Inr GeminiAdapter by (cases "usage_metadata response") simp_all
    have "0 \<le> py_round2 (clock w (Suc (ticks w)) - clock w (ticks w))"
      using assms(3) by (simp add: py_round2_nonneg)
    with tokens call Inr assms(2) GeminiAdapter show ?thesis
      by (auto simp: Gemini_generate_returns nonneg_metrics_def)
  qed
next
  case (CustomAdapter n g)
  with assms(1) show ?thesis by simp
qed

text \<open>
  C6, as the code has it. Let the adapter at position \<open>i\<close> be one of the two adapters
  of the file and let its call return. If the clock reading taken after the vendor call
  is not earlier than the reading taken before it, and the total token count that the
  vendor reports, when it reports one, is not negative, then the result at position
  \<open>i\<close> is a GenerationResult whose token count and latency are both at least 0.
\<close>

theorem run_success_metrics_nonnegative:
  assumes "i < length (adapters self)"
    and "is_builtin (adapters self ! i)"
    and "outcome_at self prompt i w = Inr d"
    and "clock (world_before self prompt i w) (ticks (world_before self prompt i w)) \<le>
         clock (world_before self prompt i w) (Suc (ticks (world_before self prompt i w)))"
    and "\<forall>t. reported_total (adapters self ! i) prompt (world_before self prompt i w) = Some t
             \<longrightarrow> 0 \<le> t"
  shows "fst (run self prompt w) ! i = d \<and>
         is_GenerationResult (fst (run self prompt w) ! i) \<and>
         nonneg_metrics (fst (run self prompt w) ! i)"
proof -
  have r: "fst (run self prompt w) ! i = d"
    using assms(1,3) by (simp add: run_nth result_of_value)
  have ret: "fst (generate (adapters self ! i) prompt (world_before self prompt i w)) = Inr d"
    using assms(3) by (simp add: outcome_at_def)
  have "is_GenerationResult d"
    using builtin_returns_GenerationResult [OF assms(2) ret] by simp
  moreover have "nonneg_metrics d"
    using assms(2) ret assms(4,5) by (rule builtin_generate_metrics)
  ultimately show ?thesis using r by simp
qed

lemma example_metered_world_before:
  "world_before \<lparr>adapters = [GeminiAdapter gemini_down, OpenAIAdapter openai_metered]\<rparr>
     ''hi'' (Suc 0) steady_world = \<lparr>clock = of_nat, ticks = Suc 0, vendor = ()\<rparr>"
  by (simp add: world_before_def run_def Gemini_generate_def time_time_def gemini_down_def
      steady_world_def)

lemma example_metered_returns:
  "outcome_at \<lparr>adapters = [GeminiAdapter gemini_down, OpenAIAdapter openai_metered]\<rparr>
     ''hi'' (Suc 0) steady_world =
   Inr [''provider'' \<mapsto> PyStr ''OpenAI GPT-4.1-mini'',
        ''text'' \<mapsto> PyStr ''hello world'',
        ''latency'' \<mapsto> PyFloat 1,
        ''tokens'' \<mapsto> PyInt 7]"
  by (simp add: outcome_at_def example_metered_world_before OpenAI_generate_def time_time_def
      openai_metered_def py_round2_def round_half_even_def)

theorem run_success_metrics_nonnegative_witness:
  "reported_total (OpenAIAdapter openai_metered) ''hi''
     \<lparr>clock = of_nat, ticks = Suc 0, vendor = ()\<rparr> = Some 7 \<and>
   nonneg_metrics
     (fst (run \<lparr>adapters = [GeminiAdapter gemini_down, OpenAIAdapter openai_metered]\<rparr>
             ''hi'' steady_world) ! 1) \<and>
   fst (run \<lparr>adapters = [GeminiAdapter gemini_down, OpenAIAdapter openai_metered]\<rparr>
          ''hi'' steady_world) ! 1 =
     [''provider'' \<mapsto> PyStr ''OpenAI GPT-4.1-mini'',
      ''text'' \<mapsto> PyStr ''hello world'',
      ''latency'' \<mapsto> PyFloat 1,
      ''tokens'' \<mapsto> PyInt 7]"
proof -
  let ?self = "\<lparr>adapters = [GeminiAdapter gemini_down, OpenAIAdapter openai_metered]\<rparr>"
  let ?d = "[''provider'' \<mapsto> PyStr ''OpenAI GPT-4.1-mini'',
             ''text'' \<mapsto> PyStr ''hello world'',
             ''latency'' \<mapsto> PyFloat 1,
             ''tokens'' \<mapsto> PyInt 7]"
  have pos: "Suc 0 < length (adapters ?self)" by simp
  have builtin: "is_builtin (adapters ?self ! Suc 0)" by simp
  have clock_ok:
    "clock (world_before ?self ''hi'' (Suc 0) steady_world)
       (ticks (world_before ?self ''hi'' (Suc 0) steady_world)) \<le>
     clock (world_before ?self ''hi'' (Suc 0) steady_world)
       (Suc (ticks (world_before ?self ''hi'' (Suc 0) steady_world)))"
    by (simp add: example_metered_world_before)
  have total: "reported_total (OpenAIAdapter openai_metered) ''hi''
      \<lparr>clock = of_nat, ticks = Suc 0, vendor = ()\<rparr> = Some 7"
    by (simp add: openai_metered_def)
  then have total_ok:
    "\<forall>t. reported_total (adapters ?self ! Suc 0) ''hi''
            (world_before ?self ''hi'' (Suc 0) steady_world) = Some t \<longrightarrow> 0 \<le> t"
    by (simp add: example_metered_world_before)
  note fact = run_success_metrics_nonnegative
    [OF pos builtin example_metered_returns clock_ok total_ok]
  have eq: "fst (run ?self ''hi'' steady_world) ! 1 = ?d"
    using fact [THEN conjunct1] by simp
  have nonneg: "nonneg_metrics (fst (run ?self ''hi'' steady_world) ! 1)"
    using fact [THEN conjunct2, THEN conjunct2] by simp
  from total nonneg eq show ?thesis by blast
qed

text \<open>
  The claim C6 as it is written has no condition on the clock or on the vendor.
  \<open>time.time()\<close> reads the system clock, which can be set back between the two
  readings: with readings 10 and then 9 the call succeeds and the latency is -1. The
  token count is the number that the vendor sent: with a reported total of -1 the call
  succeeds and the token count is -1.
\<close>

theorem run_success_metrics_negative_counterexample:
  "\<not> isl (outcome_at \<lparr>adapters = [OpenAIAdapter openai_hello]\<rparr> ''hi'' 0 set_back_world) \<and>
   (fst (run \<lparr>adapters = [OpenAIAdapter openai_hello]\<rparr> ''hi'' set_back_world) ! 0) ''latency'' =
     Some (PyFloat (- 1)) \<and>
   \<not> nonneg_metrics (fst (run \<lparr>adapters = [OpenAIAdapter openai_hello]\<rparr> ''hi'' set_back_world) ! 0) \<and>
   \<not> isl (outcome_at \<lparr>adapters = [OpenAIAdapter openai_negative]\<rparr> ''hi'' 0 steady_world) \<and>
   (fst (run \<lparr>adapters = [OpenAIAdapter openai_negative]\<rparr> ''hi'' steady_world) ! 0) ''tokens'' =
     Some (PyInt (- 1)) \<and>
   \<not> nonneg_metrics (fst (run \<lparr>adapters = [OpenAIAdapter openai_negative]\<rparr> ''hi'' steady_world) ! 0)"
  by (simp add: outcome_at_def world_before_def run_def OpenAI_generate_def time_time_def
      openai_hello_def openai_negative_def set_back_world_def steady_world_def
      nonneg_metrics_def py_round2_def round_half_even_def)

section \<open>Calls made by the runner\<close>

lemma unlogged_logged: "unlogged (logged l w) = w"
  by (simp add: unlogged_def logged_def)

lemma log_of_logged: "fst (vendor (logged l w)) = l"
  by (simp add: logged_def)

lemma name_spy: "name (spy i a) = name a"
  by (simp add: spy_def)

lemma generate_spy:
  "generate (spy i a) prompt (logged l w) =
     (fst (generate a prompt w), logged (l @ [(i, prompt)]) (snd (generate a prompt w)))"
  by (simp add: spy_def unlogged_logged log_of_logged)

lemma result_of_spy: "result_of (spy i a) r = result_of a r"
  by (cases r) (simp_all add: result_of_def name_spy)

lemma run_loop_spies:
  "run_loop prompt (spies k as) results (logged l w) =
     (fst (run_loop prompt as results w),
      logged (l @ map (\<lambda>i. (i, prompt)) [k ..< k + length as])
        (snd (run_loop prompt as results w)))"
proof (induction as arbitrary: k results l w)
  case Nil
  show ?case by simp
next
  case (Cons a as)
  have "[k ..< k + length (a # as)] = k # [Suc k ..< k + length (a # as)]"
    by (rule upt_conv_Cons) simp
  then have upt: "[k ..< k + length (a # as)] = k # [Suc k ..< Suc k + length as]"
    by simp
  show ?case
    unfolding spies.simps run_loop_step generate_spy fst_conv snd_conv result_of_spy Cons.IH upt
    by simp
qed

lemma OpenAI_generate_raises_iff:
  "fst (generate (OpenAIAdapter c) prompt w) = Inl e \<longleftrightarrow>
     fst (c ''gpt-4.1-mini'' prompt (vendor w)) = Inl e"
proof (cases "c ''gpt-4.1-mini'' prompt (vendor w)")
  case (Pair r v)
  then show ?thesis
    by (cases r) (simp_all add: OpenAI_generate_raises OpenAI_generate_returns)
qed

lemma Gemini_generate_raises_iff:
  "fst (generate (GeminiAdapter c) prompt w) = Inl e \<longleftrightarrow>
     fst (c ''gemini-1.5-flash'' prompt (vendor w)) = Inl e"
proof (cases "c ''gemini-1.5-flash'' prompt (vendor w)")
  case (Pair r v)
  then show ?thesis
    by (cases r) (simp_all add: Gemini_generate_raises Gemini_generate_returns)
qed

text \<open>
  C8. With the empty string as prompt, \<open>run\<close> calls \<open>generate\<close> of every adapter
  exactly once, in the order of the list and with the empty string: run over the
  adapters wrapped in logging doubles, it returns the same results, leaves the same
  world, and the log holds each position once, with the empty prompt. The result at a
  position is the one of the call of its adapter, so \<open>run\<close> adds no error of its own.
  The two adapters of the file hand the empty string to their vendor client and raise
  exactly what that call raises: nothing is checked before the call.
\<close>

theorem run_empty_prompt_calls_each_adapter_once:
  "run \<lparr>adapters = spies 0 (adapters self)\<rparr> [] (logged [] w) =
     (fst (run self [] w),
      logged (map (\<lambda>i. (i, [])) [0 ..< length (adapters self)]) (snd (run self [] w))) \<and>
   length (fst (run self [] w)) = length (adapters self) \<and>
   (\<forall>i < length (adapters self).
      fst (run self [] w) ! i = result_of (adapters self ! i) (outcome_at self [] i w)) \<and>
   (\<forall>c w' e. fst (generate (OpenAIAdapter c) [] w') = Inl e \<longleftrightarrow>
               fst (c ''gpt-4.1-mini'' [] (vendor w')) = Inl e) \<and>
   (\<forall>c w' e. fst (generate (GeminiAdapter c) [] w') = Inl e \<longleftrightarrow>
               fst (c ''gemini-1.5-flash'' [] (vendor w')) = Inl e)"
proof (intro conjI allI impI)
  show "run \<lparr>adapters = spies 0 (adapters self)\<rparr> [] (logged [] w) =
     (fst (run self [] w),
      logged (map (\<lambda>i. (i, [])) [0 ..< length (adapters self)]) (snd (run self [] w)))"
    using run_loop_spies [of "[]" 0 "adapters self" "[]" "[]" w] by (simp add: run_def)
  show "length (fst (run self [] w)) = length (adapters self)"
    by (rule run_length)
next
  fix i assume "i < length (adapters self)"
  then show "fst (run self [] w) ! i = result_of (adapters self ! i) (outcome_at self [] i w)"
    by (rule run_nth)
next
  fix c :: "'b openai_client" and w' e
  show "fst (generate (OpenAIAdapter c) [] w') = Inl e \<longleftrightarrow>
          fst (c ''gpt-4.1-mini'' [] (vendor w')) = Inl e"
    by (rule OpenAI_generate_raises_iff)
next
  fix c :: "'c gemini_client" and w' e
  show "fst (generate (GeminiAdapter c) [] w') = Inl e \<longleftrightarrow>
          fst (c ''gemini-1.5-flash'' [] (vendor w')) = Inl e"
    by (rule Gemini_generate_raises_iff)
qed

theorem run_empty_prompt_calls_each_adapter_once_witness:
  "vendor (snd (run \<lparr>adapters = spies 0 [OpenAIAdapter openai_hello, GeminiAdapter gemini_down]\<rparr>
                  [] (logged [] steady_world))) =
     ([(0, []), (1, [])], ()) \<and>
   length (fst (run \<lparr>adapters = [OpenAIAdapter openai_hello, GeminiAdapter gemini_down]\<rparr>
                  [] steady_world)) = 2"
proof -
  let ?self = "\<lparr>adapters = [OpenAIAdapter openai_hello, GeminiAdapter gemini_down]\<rparr>"
  note fact = run_empty_prompt_calls_each_adapter_once [of ?self steady_world]
  have "run \<lparr>adapters = spies 0 (adapters ?self)\<rparr> [] (logged [] steady_world) =
     (fst (run ?self [] steady_world),
      logged (map (\<lambda>i. (i, [])) [0 ..< length (adapters ?self)]) (snd (run ?self [] steady_world)))"
    using fact by (rule conjunct1)
  then have "vendor (snd (run \<lparr>adapters = spies 0 (adapters ?self)\<rparr> [] (logged [] steady_world))) =
     (map (\<lambda>i. (i, [])) [0 ..< length (adapters ?self)], vendor (snd (run ?self [] steady_world)))"
    by (simp add: logged_def)
  then have log: "vendor (snd (run \<lparr>adapters = spies 0 [OpenAIAdapter openai_hello, GeminiAdapter gemini_down]\<rparr>
                  [] (logged [] steady_world))) = ([(0, []), (1, [])], ())"
    by (simp add: upt_rec)
  have len: "length (fst (run ?self [] steady_world)) = 2"
    using fact [THEN conjunct2, THEN conjunct1] by simp
  from log len show ?thesis by blast
qed

section \<open>Rounding of the latency\<close>













end
